theory Spec2Isabelle
  imports Complex_Main "HOL-Library.AList"
begin

section \<open>The NILM engine of solar-dashboard (src/nilm_engine.py)\<close>

text \<open>
  Conventions of the embedding.
  \<^item> Python floats are modelled by the real numbers they stand for, so arithmetic is exact;
    \<open>round(x, n)\<close> is round-half-to-even on the exact value.
  \<^item> A timestamp text \<open>"%Y-%m-%d %H:%M:%S"\<close> is modelled by the number of seconds it denotes
    on the local time line (an \<open>int\<close>); a date text \<open>"%Y-%m-%d"\<close> by its day number.
    The engine only stores texts it produced with \<open>strftime\<close>, whose text order is the
    order of the seconds; the \<open>except (ValueError, TypeError)\<close> branches around
    \<open>strptime\<close> only fire on malformed text and have no counterpart here.
  \<^item> The wall clock (\<open>time.time()\<close>, \<open>datetime.now()\<close>) is an explicit argument \<open>now\<close>.
  \<^item> The SQLite database is a record of its tables, each a list of rows in rowid order;
    the module globals are a record \<open>detector\<close>. Every function takes and returns them.
  \<^item> A leading underscore of a Python name is dropped (\<open>_smooth\<close> is \<open>smooth\<close>).
\<close>

subsection \<open>Constants\<close>

definition EDGE_THRESHOLD :: real where "EDGE_THRESHOLD = 20"
definition SMOOTHING_WINDOW :: nat where "SMOOTHING_WINDOW = 3"
definition DEBOUNCE_SECONDS :: real where "DEBOUNCE_SECONDS = 10"
definition SIGNATURE_TOLERANCE :: real where "SIGNATURE_TOLERANCE = 30 / 100"
definition MAX_PAIRING_HOURS :: int where "MAX_PAIRING_HOURS = 12"

subsection \<open>Python numerics\<close>

definition py_round :: "real \<Rightarrow> int" where
  \<comment> \<open>\<open>round(x)\<close>: nearest integer, a tie goes to the even one.\<close>
  "py_round x =
     (let f = \<lfloor>x\<rfloor>; r = x - of_int f
      in if r < 1 / 2 then f else if 1 / 2 < r then f + 1
         else if even f then f else f + 1)"

definition py_round_nd :: "nat \<Rightarrow> real \<Rightarrow> real" where
  \<comment> \<open>\<open>round(x, n)\<close>\<close>
  "py_round_nd n x = of_int (py_round (x * 10 ^ n)) / 10 ^ n"


subsection \<open>Data model (the tables created in src/app.py)\<close>

datatype event_kind = On | Off

datatype leg = L1 | L2 | Both

record load_sample =
  s_timestamp :: int
  load_total :: real
  load_l1 :: real
  load_l2 :: real
  smoothed_total :: real

record load_event =
  e_id :: nat
  e_timestamp :: int
  e_event_type :: event_kind
  e_power_delta :: real
  e_leg :: leg
  e_duration :: "int option"
  e_signature_id :: nat
  e_confidence :: real

text \<open>
  \<open>event_count\<close> is a \<open>nat\<close>: the engine creates it as 1 and only increments or adds it.
  \<open>is_active\<close> holds 0 or 1 and is a \<open>bool\<close>.
\<close>

record signature =
  sig_id :: nat
  power_avg :: real
  power_min :: real
  power_max :: real
  leg_pattern :: leg
  event_count :: nat
  user_label :: string
  icon :: string
  color :: string
  is_active :: bool
  active_count :: int
  last_on_time :: "int option"
  avg_duration :: real
  daily_cycles :: real

record daily_stat =
  ds_date :: int
  ds_signature_id :: nat
  cycles :: int
  total_duration :: int
  energy_kwh :: real

text \<open>
  \<open>event_seq\<close> and \<open>signature_seq\<close> are the AUTOINCREMENT counters (table
  \<open>sqlite_sequence\<close>): the largest rowid ever handed out, which a DELETE does not reset.
\<close>

record db =
  load_samples :: "load_sample list"
  load_events :: "load_event list"
  appliance_signatures :: "signature list"
  appliance_daily_stats :: "daily_stat list"
  event_seq :: nat
  signature_seq :: nat

record detector =
  recent_loads :: "real list"
  recent_l1 :: "real list"
  recent_l2 :: "real list"
  stable_level :: "real option"
  last_event_time :: real

text \<open>The dict that \<open>detect_edge\<close> returns.\<close>

record detected =
  d_event_type :: event_kind
  d_power_delta :: real
  d_leg :: leg
  d_duration :: "int option"
  d_signature_id :: nat
  d_confidence :: real
  d_label :: string
  d_timestamp :: int

datatype error = IntegrityError

subsection \<open>Helpers for the SQL statements\<close>

definition get_signature :: "db \<Rightarrow> nat \<Rightarrow> signature option" where
  \<comment> \<open>\<open>SELECT ... FROM appliance_signatures WHERE id = ?\<close> with \<open>fetchone()\<close>\<close>
  "get_signature d i = find (\<lambda>s. sig_id s = i) (appliance_signatures d)"

definition update_signatures_where ::
  "(signature \<Rightarrow> bool) \<Rightarrow> (signature \<Rightarrow> signature) \<Rightarrow> db \<Rightarrow> db" where
  \<comment> \<open>\<open>UPDATE appliance_signatures SET ... WHERE ...\<close>\<close>
  "update_signatures_where p f d =
     d\<lparr>appliance_signatures := map (\<lambda>s. if p s then f s else s) (appliance_signatures d)\<rparr>"

definition update_events_where ::
  "(load_event \<Rightarrow> bool) \<Rightarrow> (load_event \<Rightarrow> load_event) \<Rightarrow> db \<Rightarrow> db" where
  \<comment> \<open>\<open>UPDATE load_events SET ... WHERE ...\<close>\<close>
  "update_events_where p f d =
     d\<lparr>load_events := map (\<lambda>e. if p e then f e else e) (load_events d)\<rparr>"

definition deque_append :: "real list \<Rightarrow> real \<Rightarrow> real list" where
  \<comment> \<open>\<open>deque(maxlen=SMOOTHING_WINDOW).append(x)\<close>: the oldest entry falls out.\<close>
  "deque_append xs x = (let ys = xs @ [x] in drop (length ys - SMOOTHING_WINDOW) ys)"

subsection \<open>Smoothing and label suggestions\<close>

definition smooth :: "real list \<Rightarrow> real" where
  "smooth values = (if values = [] then 0 else sum_list values / of_nat (length values))"

definition suggest_label :: "real \<Rightarrow> string" where
  "suggest_label watts =
     (let p = \<bar>watts\<bar>
      in if p < 50 then ''Small Device''
         else if p < 200 then ''Medium Device''
         else if p < 800 then ''Appliance''
         else if p < 2000 then ''Heater/Cooler''
         else ''Major Appliance'')"

text \<open>The icons are emoji; each is named here by the comment beside it in the source.\<close>

definition suggest_icon :: "real \<Rightarrow> string" where
  "suggest_icon watts =
     (let p = \<bar>watts\<bar>
      in if p < 50 then ''plug''
         else if p < 200 then ''snowflake''
         else if p < 800 then ''TV''
         else if p < 2000 then ''fire''
         else ''lightning'')"

definition suggest_color :: "real \<Rightarrow> string" where
  "suggest_color watts =
     (let p = \<bar>watts\<bar>
      in if p < 50 then ''#60a5fa''
         else if p < 200 then ''#22c55e''
         else if p < 800 then ''#f59e0b''
         else if p < 2000 then ''#ef4444''
         else ''#a855f7'')"

subsection \<open>Startup and sample ingestion\<close>

definition startup :: "db \<Rightarrow> nat \<times> db" where
  "startup d =
     (let d1 = update_signatures_where (\<lambda>s. True)
                 (\<lambda>s. s\<lparr>is_active := False, active_count := 0\<rparr>) d;
          d2 = update_events_where (\<lambda>e. e_event_type e = On \<and> e_duration e = None)
                 (\<lambda>e. e\<lparr>e_duration := Some (- 1)\<rparr>) d1
      in (length (appliance_signatures d2), d2))"


subsection \<open>Signature matcher\<close>

text \<open>\<open>best_diff\<close> starts as \<open>float("inf")\<close>, which is \<open>None\<close> here.\<close>

fun below_best :: "real \<Rightarrow> real option \<Rightarrow> bool" where
  "below_best x None = True"
| "below_best x (Some b) = (x < b)"

fun find_matching_loop ::
  "real \<Rightarrow> (nat \<times> real) list \<Rightarrow> nat option \<Rightarrow> real option \<Rightarrow> nat option" where
  "find_matching_loop pd [] best_id best_diff = best_id"
| "find_matching_loop pd ((sid, avg_power) # rows) best_id best_diff =
     (let diff = \<bar>pd - avg_power\<bar>;
          tolerance = avg_power * SIGNATURE_TOLERANCE
      in if diff \<le> tolerance \<and> below_best diff best_diff
         then find_matching_loop pd rows (Some sid) (Some diff)
         else find_matching_loop pd rows best_id best_diff)"

definition find_matching_signature :: "db \<Rightarrow> real \<Rightarrow> leg \<Rightarrow> nat option" where
  "find_matching_signature d pd lg =
     find_matching_loop pd (map (\<lambda>s. (sig_id s, power_avg s)) (appliance_signatures d)) None None"

definition create_signature :: "db \<Rightarrow> real \<Rightarrow> leg \<Rightarrow> nat \<times> db" where
  \<comment> \<open>\<open>active_count\<close> is not in the INSERT and takes its column default 0.\<close>
  "create_signature d pd lg =
     (let new_id = signature_seq d + 1;
          row = \<lparr>sig_id = new_id, power_avg = pd, power_min = pd, power_max = pd,
                 leg_pattern = lg, event_count = 1, user_label = suggest_label pd,
                 icon = suggest_icon pd, color = suggest_color pd, is_active = False,
                 active_count = 0, last_on_time = None, avg_duration = 0, daily_cycles = 0\<rparr>
      in (new_id, d\<lparr>appliance_signatures := appliance_signatures d @ [row],
                      signature_seq := new_id\<rparr>))"

definition update_signature :: "db \<Rightarrow> nat \<Rightarrow> real \<Rightarrow> db" where
  "update_signature d signature_id pd =
     (case get_signature d signature_id of
        None \<Rightarrow> d
      | Some row \<Rightarrow>
          (let old_avg = power_avg row; old_min = power_min row; old_max = power_max row;
               count = event_count row;
               new_count = count + 1;
               new_avg = py_round_nd 1 ((old_avg * of_nat count + pd) / of_nat new_count);
               new_min = min old_min pd;
               new_max = max old_max pd
           in update_signatures_where (\<lambda>s. sig_id s = signature_id)
                (\<lambda>s. s\<lparr>power_avg := new_avg, power_min := new_min, power_max := new_max,
                       event_count := new_count\<rparr>) d))"

text \<open>
  The step ``find or create a matching signature'' of \<open>detect_edge\<close>:
  \<open>if signature_id:\<close> treats the id 0 like no match.
\<close>

definition find_or_create_signature :: "db \<Rightarrow> real \<Rightarrow> leg \<Rightarrow> nat \<times> db" where
  "find_or_create_signature d pd lg =
     (case find_matching_signature d pd lg of
        Some i \<Rightarrow> if i \<noteq> 0 then (i, update_signature d i pd) else create_signature d pd lg
      | None \<Rightarrow> create_signature d pd lg)"


subsection \<open>Pairing an off event with an on event\<close>

definition update_avg_duration :: "db \<Rightarrow> nat \<Rightarrow> int \<Rightarrow> db" where
  "update_avg_duration d signature_id new_duration =
     (case get_signature d signature_id of
        None \<Rightarrow> d
      | Some row \<Rightarrow>
          (let old_avg = avg_duration row; count = event_count row;
               n_cycles = max 1 (count div 2);
               new_avg = py_round_nd 1
                  ((old_avg * (of_nat n_cycles - 1) + of_int new_duration) / of_nat n_cycles)
           in update_signatures_where (\<lambda>s. sig_id s = signature_id)
                (\<lambda>s. s\<lparr>avg_duration := new_avg\<rparr>) d))"

text \<open>
  The candidate query: the unpaired on events from the cutoff on, joined with their signature
  (an event whose signature row is gone drops out of the JOIN), oldest first. Rows with equal
  timestamps stay in rowid order.
\<close>

definition pairing_candidates :: "db \<Rightarrow> int \<Rightarrow> (nat \<times> int \<times> real \<times> real) list" where
  "pairing_candidates d cutoff_timestamp =
     sort_key (\<lambda>(cand_id, cand_ts, cand_delta, cand_avg). cand_ts)
       (List.map_filter
          (\<lambda>e. if e_event_type e = On \<and> e_duration e = None \<and> cutoff_timestamp \<le> e_timestamp e
               then map_option (\<lambda>s. (e_id e, e_timestamp e, e_power_delta e, power_avg s))
                      (get_signature d (e_signature_id e))
               else None)
          (load_events d))"

fun pair_loop ::
  "real \<Rightarrow> (nat \<times> int \<times> real \<times> real) list \<Rightarrow> (nat \<times> int) option \<Rightarrow> real option
    \<Rightarrow> (nat \<times> int) option \<times> real option" where
  "pair_loop off_power [] row best_diff = (row, best_diff)"
| "pair_loop off_power ((cand_id, cand_ts, cand_delta, cand_avg) # cands) row best_diff =
     (let diff = min \<bar>off_power - cand_delta\<bar> \<bar>off_power - cand_avg\<bar>
      in if below_best diff best_diff
         then pair_loop off_power cands (Some (cand_id, cand_ts)) (Some diff)
         else pair_loop off_power cands row best_diff)"

definition pair_on_off_event :: "db \<Rightarrow> nat \<Rightarrow> int \<Rightarrow> real \<Rightarrow> int option \<times> db" where
  "pair_on_off_event d signature_id off_timestamp off_power_arg =
     (let off_power =
            (if off_power_arg \<le> 0
             then (case get_signature d signature_id of Some s \<Rightarrow> power_avg s | None \<Rightarrow> 0)
             else off_power_arg);
          cutoff_timestamp = off_timestamp - MAX_PAIRING_HOURS * 3600;
          found = pair_loop off_power (pairing_candidates d cutoff_timestamp) None None;
          row = (case found of
                   (Some r, Some best_diff) \<Rightarrow>
                      if best_diff > max (off_power * (4 / 10)) 40 then None else Some r
                 | _ \<Rightarrow> None)
      in case row of
           None \<Rightarrow> (None, d)
         | Some (on_id, on_timestamp) \<Rightarrow>
             (let duration = off_timestamp - on_timestamp;
                  d1 = update_events_where (\<lambda>e. e_id e = on_id)
                         (\<lambda>e. e\<lparr>e_duration := Some duration\<rparr>) d;
                  d2 = update_avg_duration d1 signature_id duration
              in (Some duration, d2)))"


subsection \<open>Active state of a signature\<close>

text \<open>The fallback of an off event: the first active signature of similar power is decremented.\<close>

fun decrement_similar :: "real \<Rightarrow> (nat \<times> real \<times> int) list \<Rightarrow> db \<Rightarrow> db" where
  "decrement_similar pd [] d = d"
| "decrement_similar pd ((other_id, other_power, other_count) # rest) d =
     (let diff = \<bar>pd - other_power\<bar>;
          tolerance = max (other_power * SIGNATURE_TOLERANCE) EDGE_THRESHOLD
      in if diff \<le> tolerance
         then (let new_count = (if other_count \<noteq> 0 then other_count else 1) - 1
               in if new_count \<le> 0
                  then update_signatures_where (\<lambda>s. sig_id s = other_id)
                         (\<lambda>s. s\<lparr>is_active := False, active_count := 0\<rparr>) d
                  else update_signatures_where (\<lambda>s. sig_id s = other_id)
                         (\<lambda>s. s\<lparr>active_count := new_count\<rparr>) d)
         else decrement_similar pd rest d)"

definition update_signature_active_state ::
  "db \<Rightarrow> nat \<Rightarrow> event_kind \<Rightarrow> int \<Rightarrow> real \<Rightarrow> db" where
  "update_signature_active_state d signature_id event_type timestamp pd =
     (case event_type of
        On \<Rightarrow>
          (let current_count =
                 (case get_signature d signature_id of
                    Some s \<Rightarrow> if active_count s \<noteq> 0 then active_count s else 0
                  | None \<Rightarrow> 0);
               new_count = current_count + 1
           in update_signatures_where (\<lambda>s. sig_id s = signature_id)
                (\<lambda>s. s\<lparr>is_active := True, active_count := new_count,
                       last_on_time := Some timestamp\<rparr>) d)
      | Off \<Rightarrow>
          (case find (\<lambda>s. sig_id s = signature_id \<and> is_active s) (appliance_signatures d) of
             Some s \<Rightarrow>
               if active_count s \<noteq> 0 \<and> active_count s > 0
               then (let new_count = active_count s - 1
                     in if new_count \<le> 0
                        then update_signatures_where (\<lambda>s. sig_id s = signature_id)
                               (\<lambda>s. s\<lparr>is_active := False, active_count := 0\<rparr>) d
                        else update_signatures_where (\<lambda>s. sig_id s = signature_id)
                               (\<lambda>s. s\<lparr>active_count := new_count\<rparr>) d)
               else if pd > 0
               then decrement_similar pd
                      (map (\<lambda>s. (sig_id s, power_avg s, active_count s))
                         (filter is_active (appliance_signatures d))) d
               else d
           | None \<Rightarrow>
               if pd > 0
               then decrement_similar pd
                      (map (\<lambda>s. (sig_id s, power_avg s, active_count s))
                         (filter is_active (appliance_signatures d))) d
               else d))"

subsection \<open>Daily statistics\<close>

definition update_daily_cycles :: "db \<Rightarrow> nat \<Rightarrow> db" where
  \<comment> \<open>\<open>AVG(cycles)\<close> is NULL over no rows; \<open>if row and row[0]\<close> also skips an average of 0.\<close>
  "update_daily_cycles d signature_id =
     (let cs = map cycles (filter (\<lambda>r. ds_signature_id r = signature_id) (appliance_daily_stats d))
      in if cs = [] then d
         else (let avg_cycles = (of_int (sum_list cs) :: real) / of_nat (length cs)
               in if avg_cycles = 0 then d
                  else update_signatures_where (\<lambda>s. sig_id s = signature_id)
                         (\<lambda>s. s\<lparr>daily_cycles := py_round_nd 1 avg_cycles\<rparr>) d))"

definition update_daily_stats :: "real \<Rightarrow> db \<Rightarrow> nat \<Rightarrow> real \<Rightarrow> int \<Rightarrow> db" where
  \<comment> \<open>\<open>today\<close> is the date of the wall clock \<open>now\<close>.\<close>
  "update_daily_stats now d signature_id pd duration =
     (let today = \<lfloor>now\<rfloor> div 86400;
          energy = py_round_nd 4 (pd * of_int duration / 3600 / 1000);
          hit = (\<lambda>r. ds_date r = today \<and> ds_signature_id r = signature_id);
          d1 = (if list_ex hit (appliance_daily_stats d)
                then d\<lparr>appliance_daily_stats :=
                        map (\<lambda>r. if hit r
                                  then r\<lparr>cycles := cycles r + 1,
                                         total_duration := total_duration r + duration,
                                         energy_kwh := energy_kwh r + energy\<rparr>
                                  else r) (appliance_daily_stats d)\<rparr>
                else d\<lparr>appliance_daily_stats := appliance_daily_stats d @
                        [\<lparr>ds_date = today, ds_signature_id = signature_id, cycles = 1,
                          total_duration = duration, energy_kwh = energy\<rparr>]\<rparr>)
      in update_daily_cycles d1 signature_id)"

definition get_signature_label :: "db \<Rightarrow> nat \<Rightarrow> string" where
  "get_signature_label d signature_id =
     (case get_signature d signature_id of Some s \<Rightarrow> user_label s | None \<Rightarrow> ''Unknown'')"

subsection \<open>Edge detection\<close>

text \<open>
  \<open>record_event\<close> is the second half of \<open>detect_edge\<close>, from ``find or create a matching
  signature'' to the returned dict: it resolves the signature, pairs an off event, inserts
  the event row (which gets the next AUTOINCREMENT id), updates the active state and the
  daily statistics. \<open>wall\<close> is the wall clock of the call.
\<close>

definition record_event ::
  "real \<Rightarrow> db \<Rightarrow> event_kind \<Rightarrow> real \<Rightarrow> int \<Rightarrow> leg \<Rightarrow> real \<Rightarrow> detected \<times> db" where
  "record_event wall d event_type power_delta timestamp lg confidence =
     (let matched = find_or_create_signature d power_delta lg;
          signature_id = fst matched;
          paired = (if event_type = Off
                    then pair_on_off_event (snd matched) signature_id timestamp power_delta
                    else (None, snd matched));
          duration = fst paired;
          d2 = snd paired;
          d3 = d2\<lparr>load_events := load_events d2 @
                   [\<lparr>e_id = event_seq d2 + 1, e_timestamp = timestamp,
                     e_event_type = event_type, e_power_delta = power_delta,
                     e_leg = lg, e_duration = duration,
                     e_signature_id = signature_id, e_confidence = confidence\<rparr>],
                 event_seq := event_seq d2 + 1\<rparr>;
          d4 = update_signature_active_state d3 signature_id event_type timestamp power_delta;
          d5 = (case duration of
                  Some secs \<Rightarrow>
                    if event_type = Off \<and> secs \<noteq> 0
                    then update_daily_stats wall d4 signature_id power_delta secs
                    else d4
                | None \<Rightarrow> d4);
          label = get_signature_label d5 signature_id
      in (\<lparr>d_event_type = event_type, d_power_delta = power_delta, d_leg = lg,
           d_duration = duration, d_signature_id = signature_id, d_confidence = confidence,
           d_label = label, d_timestamp = timestamp\<rparr>,
          d5))"

definition detect_edge ::
  "real \<Rightarrow> db \<Rightarrow> detector \<Rightarrow> real \<Rightarrow> real option \<Rightarrow> real option \<Rightarrow> int option
    \<Rightarrow> detected option \<times> db \<times> detector" where
  "detect_edge wall d st smoothed l1 l2 override_timestamp =
     (case stable_level st of
        None \<Rightarrow> (None, d, st\<lparr>stable_level := Some smoothed\<rparr>)
      | Some level \<Rightarrow>
          (let raw_current = (if recent_loads st \<noteq> [] then last (recent_loads st) else smoothed);
               delta = raw_current - level
           in if \<bar>delta\<bar> < EDGE_THRESHOLD
              then (None, d, st\<lparr>stable_level := Some (level * (95 / 100) + smoothed * (5 / 100))\<rparr>)
              else
                (let now = (case override_timestamp of Some ts \<Rightarrow> of_int ts | None \<Rightarrow> wall)
                 in if now - last_event_time st < DEBOUNCE_SECONDS then (None, d, st)
                    else
                      (let st1 = st\<lparr>last_event_time := now, stable_level := Some raw_current\<rparr>;
                           event_type = (if delta > 0 then On else Off);
                           power_delta = py_round_nd 1 \<bar>delta\<bar>;
                           timestamp = (case override_timestamp of Some ts \<Rightarrow> ts | None \<Rightarrow> \<lfloor>wall\<rfloor>);
                           l1_now = (case l1 of Some v \<Rightarrow> v | None \<Rightarrow> 0);
                           l2_now = (case l2 of Some v \<Rightarrow> v | None \<Rightarrow> 0);
                           lg = (if \<bar>l1_now - l2_now\<bar> < 20 then Both
                                 else if l1_now > l2_now then L1 else L2);
                           confidence = py_round_nd 2 (max (1 / 2) (min 1 (1 / 2 + power_delta / 400)));
                           recorded = record_event wall d event_type power_delta timestamp lg
                                        confidence
                       in (Some (fst recorded), snd recorded, st1)))))"

subsection \<open>Active appliances\<close>






subsection \<open>Listing and merging signatures\<close>

definition get_all_signatures :: "db \<Rightarrow> signature list" where
  \<comment> \<open>\<open>ORDER BY event_count DESC\<close>\<close>
  "get_all_signatures d = sort_key (\<lambda>s. - int (event_count s)) (appliance_signatures d)"

text \<open>
  \<open>appliance_daily_stats\<close> has \<open>PRIMARY KEY (date, signature_id)\<close>: moving a row of
  \<open>merge_id\<close> onto a date for which \<open>keep_id\<close> has a row raises \<open>sqlite3.IntegrityError\<close>;
  nothing was committed, so the database is as before the call.
\<close>

definition merge_signatures :: "db \<Rightarrow> nat \<Rightarrow> nat \<Rightarrow> error + (bool \<times> db)" where
  "merge_signatures d keep_id merge_id =
     (case (get_signature d keep_id, get_signature d merge_id) of
        (Some keep, Some merge) \<Rightarrow>
          (let total_count = event_count keep + event_count merge;
               new_avg = (if total_count > 0
                          then py_round_nd 1
                                 ((power_avg keep * of_nat (event_count keep)
                                   + power_avg merge * of_nat (event_count merge))
                                  / of_nat total_count)
                          else power_avg keep);
               d1 = update_events_where (\<lambda>e. e_signature_id e = merge_id)
                      (\<lambda>e. e\<lparr>e_signature_id := keep_id\<rparr>) d
           in if keep_id \<noteq> merge_id \<and>
                 list_ex (\<lambda>r. ds_signature_id r = merge_id \<and>
                            list_ex (\<lambda>k. ds_signature_id k = keep_id \<and> ds_date k = ds_date r)
                              (appliance_daily_stats d1))
                   (appliance_daily_stats d1)
              then Inl IntegrityError
              else
                (let d2 = d1\<lparr>appliance_daily_stats :=
                              map (\<lambda>r. if ds_signature_id r = merge_id
                                        then r\<lparr>ds_signature_id := keep_id\<rparr> else r)
                                (appliance_daily_stats d1)\<rparr>;
                     d3 = update_signatures_where (\<lambda>s. sig_id s = keep_id)
                            (\<lambda>s. s\<lparr>power_avg := new_avg, event_count := total_count\<rparr>) d2;
                     d4 = d3\<lparr>appliance_signatures :=
                              filter (\<lambda>s. sig_id s \<noteq> merge_id) (appliance_signatures d3)\<rparr>
                 in Inr (True, d4)))
      | _ \<Rightarrow> Inr (False, d))"

subsection \<open>Reanalysis\<close>

text \<open>
  The dict \<open>saved\<close> is an association list in insertion order; assigning to a key that is
  present replaces its value in place, as a Python dict does. A customization is the triple
  (label, icon, color).
\<close>

type_synonym customization = "string \<times> string \<times> string"

definition save_user_labels :: "db \<Rightarrow> (int \<times> customization) list" where
  "save_user_labels d =
     fold (\<lambda>s saved. AList.update (py_round (power_avg s)) (user_label s, icon s, color s) saved)
       (appliance_signatures d) []"

definition auto_labels :: "string list" where
  "auto_labels =
     [''Small Device'', ''Medium Device'', ''Appliance'', ''Heater/Cooler'', ''Major Appliance'']"

fun restore_loop ::
  "int \<Rightarrow> (int \<times> customization) list \<Rightarrow> customization option \<Rightarrow> real option
    \<Rightarrow> customization option" where
  "restore_loop key [] best_match best_diff = best_match"
| "restore_loop key ((saved_power, custom) # rest) best_match best_diff =
     (let diff = \<bar>key - saved_power\<bar>;
          tolerance = max (of_int key * SIGNATURE_TOLERANCE) EDGE_THRESHOLD
      in if of_int diff \<le> tolerance \<and> below_best (of_int diff) best_diff
            \<and> \<not> List.member auto_labels (fst custom)
         then restore_loop key rest (Some custom) (Some (of_int diff))
         else restore_loop key rest best_match best_diff)"

definition restore_user_labels :: "db \<Rightarrow> (int \<times> customization) list \<Rightarrow> db" where
  "restore_user_labels d saved_labels =
     fold (\<lambda>(sid, avg_power) acc.
             case restore_loop (py_round avg_power) saved_labels None None of
               None \<Rightarrow> acc
             | Some (lbl, ic, col) \<Rightarrow>
                 update_signatures_where (\<lambda>s. sig_id s = sid)
                   (\<lambda>s. s\<lparr>user_label := lbl, icon := ic, color := col\<rparr>) acc)
       (map (\<lambda>s. (sig_id s, power_avg s)) (appliance_signatures d)) d"

text \<open>The dict that \<open>reanalyze\<close> returns.\<close>

record summary =
  r_samples :: nat
  r_events :: nat
  r_signatures :: nat

text \<open>
  The replay loop. \<open>clock k\<close> is the wall clock while the \<open>k\<close>-th remaining sample is replayed.
\<close>

fun replay ::
  "(nat \<Rightarrow> real) \<Rightarrow> load_sample list \<Rightarrow> db \<Rightarrow> detector \<Rightarrow> nat \<Rightarrow> nat \<times> db \<times> detector" where
  "replay clock [] d st events_found = (events_found, d, st)"
| "replay clock (s # rest) d st events_found =
     (let st1 = st\<lparr>recent_loads := deque_append (recent_loads st) (load_total s),
                   recent_l1 := deque_append (recent_l1 st) (load_l1 s),
                   recent_l2 := deque_append (recent_l2 st) (load_l2 s)\<rparr>;
          smoothed = smooth (recent_loads st1);
          res = detect_edge (clock 0) d st1 smoothed (Some (load_l1 s)) (Some (load_l2 s))
                  (Some (s_timestamp s))
      in replay (\<lambda>k. clock (Suc k)) rest (fst (snd res)) (snd (snd res))
           (if fst res \<noteq> None then events_found + 1 else events_found))"

definition reanalyze :: "(nat \<Rightarrow> real) \<Rightarrow> db \<Rightarrow> detector \<Rightarrow> summary \<times> db \<times> detector" where
  "reanalyze clock d st =
     (let saved_labels = save_user_labels d;
          d1 = d\<lparr>load_events := [], appliance_signatures := [], appliance_daily_stats := []\<rparr>;
          samples = sort_key s_timestamp (load_samples d1)
      in if samples = []
         then (\<lparr>r_samples = 0, r_events = 0, r_signatures = 0\<rparr>, d1, st)
         else
           (let st0 = \<lparr>recent_loads = [], recent_l1 = [], recent_l2 = [],
                       stable_level = None, last_event_time = 0\<rparr>;
                res = replay clock samples d1 st0 0;
                events_found = fst res;
                d3 = update_signatures_where (\<lambda>s. True)
                       (\<lambda>s. s\<lparr>is_active := False, active_count := 0\<rparr>) (fst (snd res));
                sig_count = length (appliance_signatures d3);
                d4 = restore_user_labels d3 saved_labels
            in (\<lparr>r_samples = length samples, r_events = events_found,
                 r_signatures = sig_count\<rparr>, d4, snd (snd res))))"

subsection \<open>The sampling step of the MQTT handler (src/app.py)\<close>




section \<open>Example states\<close>

text \<open>Concrete tables and detector states on which the properties below are evaluated.\<close>

definition empty_db :: db where
  "empty_db = \<lparr>load_samples = [], load_events = [], appliance_signatures = [],
                appliance_daily_stats = [], event_seq = 0, signature_seq = 0\<rparr>"

definition initial_detector :: detector where
  \<comment> \<open>the module globals as they are right after import\<close>
  "initial_detector = \<lparr>recent_loads = [], recent_l1 = [], recent_l2 = [],
                        stable_level = None, last_event_time = 0\<rparr>"

definition mk_signature :: "nat \<Rightarrow> real \<Rightarrow> nat \<Rightarrow> string \<Rightarrow> signature" where
  "mk_signature i p n lbl =
     \<lparr>sig_id = i, power_avg = p, power_min = p, power_max = p, leg_pattern = Both,
      event_count = n, user_label = lbl, icon = suggest_icon p, color = suggest_color p,
      is_active = False, active_count = 0, last_on_time = None, avg_duration = 0,
      daily_cycles = 0\<rparr>"

definition mk_on_event :: "nat \<Rightarrow> int \<Rightarrow> real \<Rightarrow> nat \<Rightarrow> load_event" where
  "mk_on_event i ts pd sid =
     \<lparr>e_id = i, e_timestamp = ts, e_event_type = On, e_power_delta = pd, e_leg = Both,
      e_duration = None, e_signature_id = sid, e_confidence = 1 / 2\<rparr>"

definition tracking_detector :: "real \<Rightarrow> detector" where
  "tracking_detector b = initial_detector\<lparr>stable_level := Some b\<rparr>"

definition fridge_db :: db where
  \<comment> \<open>one signature that the user renamed, one unpaired on event, no samples\<close>
  "fridge_db = empty_db\<lparr>appliance_signatures := [mk_signature 1 150 3 ''Fridge''],
                        load_events := [mk_on_event 1 1000 150 1],
                        event_seq := 1, signature_seq := 1\<rparr>"




text \<open>A sample table holding one appliance cycle.\<close>

definition mk_sample :: "int \<Rightarrow> real \<Rightarrow> load_sample" where
  "mk_sample ts v = \<lparr>s_timestamp = ts, load_total = v, load_l1 = 0, load_l2 = 0, smoothed_total = v\<rparr>"

definition one_cycle_db :: db where
  \<comment> \<open>samples of day 0: an appliance of about 150 W goes on at second 1005 and off at 1100\<close>
  "one_cycle_db = empty_db\<lparr>load_samples :=
      [mk_sample 1000 100, mk_sample 1005 250, mk_sample 1010 250, mk_sample 1015 250,
       mk_sample 1100 100]\<rparr>"



section \<open>Properties\<close>

subsection \<open>Auxiliary facts\<close>

lemma sort_key_Nil_iff: "sort_key f xs = [] \<longleftrightarrow> xs = []"
  by (metis length_sort list.size(3) length_0_conv)

subsection \<open>Reanalysis without samples\<close>

text \<open>
  Claim C10. When the table \<open>load_samples\<close> is empty, \<open>reanalyze\<close> returns the summary with
  all three counts 0, and the database it leaves has no events, no signatures and no daily
  statistics: the derived state was deleted before the early return. The signatures are gone,
  so the snapshotted labels were not restored, and the detector state is the one before the
  call (no reset).
\<close>

theorem reanalyze_empty_samples:
  assumes "load_samples d = []"
  shows "reanalyze clock d st =
           (\<lparr>r_samples = 0, r_events = 0, r_signatures = 0\<rparr>,
            d\<lparr>load_events := [], appliance_signatures := [], appliance_daily_stats := []\<rparr>,
            st)"
  using assms by (simp add: reanalyze_def Let_def)

theorem reanalyze_empty_samples_witness:
  "load_samples fridge_db = [] \<and> appliance_signatures fridge_db \<noteq> [] \<and>
   reanalyze (\<lambda>k. 0) fridge_db (tracking_detector 100) =
     (\<lparr>r_samples = 0, r_events = 0, r_signatures = 0\<rparr>,
      empty_db\<lparr>event_seq := 1, signature_seq := 1\<rparr>,
      tracking_detector 100)"
  using reanalyze_empty_samples [of fridge_db "\<lambda>k. 0" "tracking_detector 100"]
  by (simp add: fridge_db_def empty_db_def)

subsection \<open>The stable branch of the edge detector\<close>














subsection \<open>Matching and updating signatures\<close>












subsection \<open>What each operation leaves alone\<close>

lemma update_signatures_where_frame [simp]:
  "load_samples (update_signatures_where p f d) = load_samples d"
  "load_events (update_signatures_where p f d) = load_events d"
  "appliance_daily_stats (update_signatures_where p f d) = appliance_daily_stats d"
  "event_seq (update_signatures_where p f d) = event_seq d"
  "signature_seq (update_signatures_where p f d) = signature_seq d"
  by (simp_all add: update_signatures_where_def)

lemma update_events_where_frame [simp]:
  "load_samples (update_events_where p f d) = load_samples d"
  "appliance_signatures (update_events_where p f d) = appliance_signatures d"
  "appliance_daily_stats (update_events_where p f d) = appliance_daily_stats d"
  "event_seq (update_events_where p f d) = event_seq d"
  "signature_seq (update_events_where p f d) = signature_seq d"
  by (simp_all add: update_events_where_def)

lemma update_avg_duration_frame [simp]:
  "load_samples (update_avg_duration d i n) = load_samples d"
  "load_events (update_avg_duration d i n) = load_events d"
  "appliance_daily_stats (update_avg_duration d i n) = appliance_daily_stats d"
  "event_seq (update_avg_duration d i n) = event_seq d"
  "signature_seq (update_avg_duration d i n) = signature_seq d"
  by (simp_all add: update_avg_duration_def Let_def split: option.splits)

lemma decrement_similar_frame [simp]:
  "load_samples (decrement_similar pd rows d) = load_samples d"
  "load_events (decrement_similar pd rows d) = load_events d"
  "appliance_daily_stats (decrement_similar pd rows d) = appliance_daily_stats d"
  "event_seq (decrement_similar pd rows d) = event_seq d"
  "signature_seq (decrement_similar pd rows d) = signature_seq d"
  by (induction pd rows d rule: decrement_similar.induct; simp add: Let_def)+

lemma update_signature_active_state_frame [simp]:
  "load_samples (update_signature_active_state d i k ts pd) = load_samples d"
  "load_events (update_signature_active_state d i k ts pd) = load_events d"
  "appliance_daily_stats (update_signature_active_state d i k ts pd) = appliance_daily_stats d"
  "event_seq (update_signature_active_state d i k ts pd) = event_seq d"
  "signature_seq (update_signature_active_state d i k ts pd) = signature_seq d"
  by (simp_all add: update_signature_active_state_def Let_def split: option.splits event_kind.splits)

lemma update_daily_cycles_frame [simp]:
  "load_samples (update_daily_cycles d i) = load_samples d"
  "load_events (update_daily_cycles d i) = load_events d"
  "appliance_daily_stats (update_daily_cycles d i) = appliance_daily_stats d"
  "event_seq (update_daily_cycles d i) = event_seq d"
  "signature_seq (update_daily_cycles d i) = signature_seq d"
  by (simp_all add: update_daily_cycles_def Let_def)

lemma update_daily_stats_frame [simp]:
  "load_samples (update_daily_stats now d i pd n) = load_samples d"
  "load_events (update_daily_stats now d i pd n) = load_events d"
  "event_seq (update_daily_stats now d i pd n) = event_seq d"
  "signature_seq (update_daily_stats now d i pd n) = signature_seq d"
  by (simp_all add: update_daily_stats_def Let_def)

subsection \<open>Pairing\<close>












lemma pair_on_off_event_frame [simp]:
  "load_samples (snd (pair_on_off_event d i ts pd)) = load_samples d"
  "appliance_daily_stats (snd (pair_on_off_event d i ts pd)) = appliance_daily_stats d"
  "event_seq (snd (pair_on_off_event d i ts pd)) = event_seq d"
  "signature_seq (snd (pair_on_off_event d i ts pd)) = signature_seq d"
  by (simp_all add: pair_on_off_event_def Let_def split: option.splits prod.splits)






subsection \<open>Daily statistics\<close>

lemma update_signature_frame [simp]:
  "load_samples (update_signature d i pd) = load_samples d"
  "load_events (update_signature d i pd) = load_events d"
  "appliance_daily_stats (update_signature d i pd) = appliance_daily_stats d"
  "event_seq (update_signature d i pd) = event_seq d"
  "signature_seq (update_signature d i pd) = signature_seq d"
  by (simp_all add: update_signature_def Let_def split: option.splits)

lemma create_signature_frame [simp]:
  "load_samples (snd (create_signature d pd lg)) = load_samples d"
  "load_events (snd (create_signature d pd lg)) = load_events d"
  "appliance_daily_stats (snd (create_signature d pd lg)) = appliance_daily_stats d"
  "event_seq (snd (create_signature d pd lg)) = event_seq d"
  by (simp_all add: create_signature_def Let_def)

lemma find_or_create_signature_frame [simp]:
  "load_samples (snd (find_or_create_signature d pd lg)) = load_samples d"
  "load_events (snd (find_or_create_signature d pd lg)) = load_events d"
  "appliance_daily_stats (snd (find_or_create_signature d pd lg)) = appliance_daily_stats d"
  "event_seq (snd (find_or_create_signature d pd lg)) = event_seq d"
  by (simp_all add: find_or_create_signature_def split: option.splits)

lemma update_daily_stats_rows:
  "appliance_daily_stats (update_daily_stats now d sid pd dur) =
     (if list_ex (\<lambda>r. ds_date r = \<lfloor>now\<rfloor> div 86400 \<and> ds_signature_id r = sid) (appliance_daily_stats d)
      then map (\<lambda>r. if ds_date r = \<lfloor>now\<rfloor> div 86400 \<and> ds_signature_id r = sid
                     then r\<lparr>cycles := cycles r + 1, total_duration := total_duration r + dur,
                            energy_kwh := energy_kwh r + py_round_nd 4 (pd * of_int dur / 3600 / 1000)\<rparr>
                     else r) (appliance_daily_stats d)
      else appliance_daily_stats d @
             [\<lparr>ds_date = \<lfloor>now\<rfloor> div 86400, ds_signature_id = sid, cycles = 1,
               total_duration = dur, energy_kwh = py_round_nd 4 (pd * of_int dur / 3600 / 1000)\<rparr>])"
  by (simp add: update_daily_stats_def Let_def)

lemma record_event_daily_stats:
  "appliance_daily_stats (snd (record_event wall d Off pd ts lg conf)) =
     (case d_duration (fst (record_event wall d Off pd ts lg conf)) of
        Some secs \<Rightarrow>
          if secs \<noteq> 0
          then appliance_daily_stats
                 (update_daily_stats wall d (d_signature_id (fst (record_event wall d Off pd ts lg conf))) pd secs)
          else appliance_daily_stats d
      | None \<Rightarrow> appliance_daily_stats d)"
  by (simp add: record_event_def Let_def update_daily_stats_rows split: option.splits)

text \<open>
  Claim C4. \<open>update_daily_stats\<close> rounds power * duration / 3600 / 1000 to four decimals and
  upserts it (one more cycle, the duration and the energy added) into the row of the
  signature whose date is that of the wall clock, and \<open>detect_edge\<close> calls it for an off
  event with a duration other than 0. In a replay the wall clock is not the clock of the
  event: replaying the cycle of \<open>one_cycle_db\<close>, whose events are of day 0, while the wall
  clock is on day 100 books the cycle on day 100.
\<close>

theorem daily_stats_dated_by_wall_clock:
  "appliance_daily_stats (update_daily_stats now d sid pd dur) =
     (if list_ex (\<lambda>r. ds_date r = \<lfloor>now\<rfloor> div 86400 \<and> ds_signature_id r = sid) (appliance_daily_stats d)
      then map (\<lambda>r. if ds_date r = \<lfloor>now\<rfloor> div 86400 \<and> ds_signature_id r = sid
                     then r\<lparr>cycles := cycles r + 1, total_duration := total_duration r + dur,
                            energy_kwh := energy_kwh r + py_round_nd 4 (pd * of_int dur / 3600 / 1000)\<rparr>
                     else r) (appliance_daily_stats d)
      else appliance_daily_stats d @
             [\<lparr>ds_date = \<lfloor>now\<rfloor> div 86400, ds_signature_id = sid, cycles = 1,
               total_duration = dur, energy_kwh = py_round_nd 4 (pd * of_int dur / 3600 / 1000)\<rparr>])
   \<and> appliance_daily_stats (snd (record_event wall d Off pd ts lg conf)) =
       (case d_duration (fst (record_event wall d Off pd ts lg conf)) of
          Some secs \<Rightarrow>
            if secs \<noteq> 0
            then appliance_daily_stats
                   (update_daily_stats wall d
                      (d_signature_id (fst (record_event wall d Off pd ts lg conf))) pd secs)
            else appliance_daily_stats d
        | None \<Rightarrow> appliance_daily_stats d)
   \<and> map (\<lambda>e. (e_timestamp e, e_timestamp e div 86400, e_event_type e, e_power_delta e, e_duration e))
       (load_events (fst (snd (reanalyze (\<lambda>k. 8640005) one_cycle_db initial_detector))))
       = [(1005, 0, On, 150, Some 95), (1100, 0, Off, 1476 / 10, Some 95)]
   \<and> appliance_daily_stats (fst (snd (reanalyze (\<lambda>k. 8640005) one_cycle_db initial_detector)))
       = [\<lparr>ds_date = 100, ds_signature_id = 1, cycles = 1, total_duration = 95,
           energy_kwh = 39 / 10000\<rparr>]"
proof (intro conjI)
  show "map (\<lambda>e. (e_timestamp e, e_timestamp e div 86400, e_event_type e, e_power_delta e, e_duration e))
       (load_events (fst (snd (reanalyze (\<lambda>k. 8640005) one_cycle_db initial_detector))))
       = [(1005, 0, On, 150, Some 95), (1100, 0, Off, 1476 / 10, Some 95)]"
    by code_simp
  show "appliance_daily_stats (fst (snd (reanalyze (\<lambda>k. 8640005) one_cycle_db initial_detector)))
       = [\<lparr>ds_date = 100, ds_signature_id = 1, cycles = 1, total_duration = 95,
           energy_kwh = 39 / 10000\<rparr>]"
    by code_simp
qed (rule update_daily_stats_rows record_event_daily_stats)+

subsection \<open>Active appliances at idle load\<close>






end
